theory Spec2Isabelle
  imports Main
begin

unbundle bit_operations_syntax

section \<open>Python values and exceptions\<close>

text \<open>
  The module \<^verbatim>\<open>dit.py\<close> is a thin adapter over a COM/WMI provider. Scalar property
  values are \<open>pyval\<close>. Every raise of the source is a value of \<open>exn\<close>; a function
  that can raise returns \<open>exn + 'a\<close>, with \<open>Inl\<close> for the exception.
\<close>

datatype pyval = PNone | PBool bool | PInt int | PStr string

text \<open>Python truthiness, as tested by \<^verbatim>\<open>if x:\<close>.\<close>

fun truthy :: "pyval \<Rightarrow> bool" where
  "truthy PNone = False"
| "truthy (PBool b) = b"
| "truthy (PInt n) = (n \<noteq> 0)"
| "truthy (PStr s) = (s \<noteq> [])"

text \<open>
  \<^verbatim>\<open>pywintypes.com_error.args\<close> is \<^verbatim>\<open>(hresult, strerror, excepinfo, argerror)\<close>, where
  \<^verbatim>\<open>excepinfo\<close> is None or the tuple (wcode, source, text, helpFile, helpId, scode).
\<close>

record excepinfo =
  ex_wcode :: pyval
  ex_source :: pyval
  ex_text :: pyval
  ex_helpfile :: pyval
  ex_helpid :: pyval
  ex_scode :: pyval

record com_args =
  hresult :: int
  strerror :: pyval
  excepinfo :: "excepinfo option"
  argerror :: pyval

text \<open>
  What \<^verbatim>\<open>except _COMI_ERROR\<close> catches: a \<^verbatim>\<open>pywintypes.com_error\<close>, or a
  \<^verbatim>\<open>_wmii.x_wmi\<close> with its message and its \<^verbatim>\<open>com_error\<close> attribute (None when it
  wraps none, as in \<^verbatim>\<open>_wmii.x_wmi(f'... not found.')\<close>).
\<close>

datatype comi_error = Com_error com_args | X_wmi string "com_args option"

text \<open>The error object of the provider, as \<^verbatim>\<open>DITError.__init__\<close> reads it.\<close>

record dit_err =
  Operation :: pyval
  ParameterInfo :: pyval
  Description :: pyval
  GetObjectText :: string

datatype raw_handle = Raw_error comi_error | Raw_dit dit_err

text \<open>
  The attributes of a \<^verbatim>\<open>COMError\<close> (and of its subclass \<^verbatim>\<open>DITError\<close>), each
  prefixed with \<open>err_\<close>;
  \<^verbatim>\<open>self.args\<close> is \<open>error_args\<close> of them.
\<close>

record error_fields =
  err_source :: pyval
  err_description :: pyval
  err_code :: string
  err_operation :: string
  err_param_info :: pyval
  err_additional_info :: "excepinfo option"
  err_handle :: raw_handle

definition error_args :: "error_fields \<Rightarrow> string \<times> pyval \<times> pyval \<times> pyval" where
  "error_args e = (err_code e, err_description e, err_source e, err_param_info e)"

datatype exn =
    COMError error_fields
  | DITError error_fields
  | KeyError pyval
  | ValueError string
  | IndexError
  | AttributeError string
  | Raised comi_error

section \<open>Strings\<close>

text \<open>
  Strings are modelled on ASCII text: \<open>lower\<close> and \<open>upper\<close> map the letters A-Z and
  a-z and leave every other character alone; \<open>is_space\<close> is \<^verbatim>\<open>str.isspace\<close> there
  (tab, line feed, vertical tab, form feed, carriage return, the separators 28-31 and
  space).
\<close>

definition is_digit :: "char \<Rightarrow> bool" where
  "is_digit c \<longleftrightarrow> c \<in> set ''0123456789''"


definition lower_char :: "char \<Rightarrow> char" where
  "lower_char c =
     (case map_of (zip ''ABCDEFGHIJKLMNOPQRSTUVWXYZ'' ''abcdefghijklmnopqrstuvwxyz'') c of
        Some l \<Rightarrow> l
      | None \<Rightarrow> c)"


definition lower :: "string \<Rightarrow> string" where
  "lower s = map lower_char s"


text \<open>
  \<^verbatim>\<open>hex(n)\<close> and \<^verbatim>\<open>str(n)\<close> of an integer, \<^verbatim>\<open>int(s)\<close> of a string of digits.
  \<open>digits_of b n\<close> is used with base 10 or 16 only, so every digit is below 16.
\<close>

definition digit_char :: "nat \<Rightarrow> char" where
  "digit_char d = ''0123456789abcdef'' ! d"

function digits_of :: "nat \<Rightarrow> nat \<Rightarrow> string" where
  "digits_of b n =
     (if b < 2 \<or> n < b then [digit_char n] else digits_of b (n div b) @ [digit_char (n mod b)])"
  by pat_completeness auto
termination
  by (relation "measure (\<lambda>(b, n). n)") auto

declare digits_of.simps [simp del]

definition hex :: "int \<Rightarrow> string" where
  "hex n = (if n < 0 then ''-0x'' @ digits_of 16 (nat (- n)) else ''0x'' @ digits_of 16 (nat n))"

definition str_int :: "int \<Rightarrow> string" where
  "str_int n = (if n < 0 then ''-'' @ digits_of 10 (nat (- n)) else digits_of 10 (nat n))"

definition int_of_digits :: "string \<Rightarrow> int" where
  "int_of_digits s = foldl (\<lambda>a c. 10 * a + (int (of_char c) - 48)) 0 s"


section \<open>Decoding wrapped errors\<close>

text \<open>
  \<^verbatim>\<open>COMError.__init__\<close>. \<open>err\<close> is the exception in flight (\<^verbatim>\<open>exc_info()[1]\<close>).
  Unpacking \<^verbatim>\<open>err.args\<close> succeeds for a \<^verbatim>\<open>com_error\<close>; for an \<^verbatim>\<open>x_wmi\<close> it raises
  ValueError and the arguments of \<^verbatim>\<open>err.com_error\<close> are taken, which raises
  AttributeError when that attribute is None. \<^verbatim>\<open>_wmii.signed_to_unsigned\<close> is not part
  of the sources and is the parameter \<open>s2u\<close>.
\<close>

definition com_args_of :: "comi_error \<Rightarrow> com_args option" where
  "com_args_of err = (case err of Com_error a \<Rightarrow> Some a | X_wmi _ a \<Rightarrow> a)"

definition COMError_init :: "(int \<Rightarrow> int) \<Rightarrow> comi_error \<Rightarrow> exn + error_fields" where
  "COMError_init s2u err =
     (case com_args_of err of
        None \<Rightarrow> Inl (AttributeError ''args'')
      | Some a \<Rightarrow>
          Inr \<lparr>err_source = (case excepinfo a of Some x \<Rightarrow> ex_source x | None \<Rightarrow> PStr []),
               err_description = (case excepinfo a of Some x \<Rightarrow> ex_text x | None \<Rightarrow> strerror a),
               err_code = hex (s2u (hresult a)),
               err_operation = [],
               err_param_info = PStr [],
               err_additional_info = excepinfo a,
               err_handle = Raw_error err\<rparr>)"

text \<open>
  \<^verbatim>\<open>search(r"(?<=StatusCode = )\d+", text)\<close>: the leftmost position that follows the
  text \<^verbatim>\<open>StatusCode = \<close> and starts a digit; the match is the longest run of digits
  from there. \<open>None\<close> when there is no match.
\<close>

fun stat_code_search :: "string \<Rightarrow> string option" where
  "stat_code_search [] = None"
| "stat_code_search (c # cs) =
     (if take 13 (c # cs) = ''StatusCode = '' \<and> takeWhile is_digit (drop 13 (c # cs)) \<noteq> []
      then Some (takeWhile is_digit (drop 13 (c # cs)))
      else stat_code_search cs)"

text \<open>
  \<^verbatim>\<open>DITError.__init__(dit_err)\<close>: the attributes of the COMError, then the overrides,
  each behind its guard. \<^verbatim>\<open>search(...).group()\<close> on no match raises the AttributeError
  that the \<^verbatim>\<open>except\<close> swallows, leaving the code of the COMError.
\<close>

definition DITError_init :: "(int \<Rightarrow> int) \<Rightarrow> dit_err \<Rightarrow> comi_error \<Rightarrow> exn + error_fields" where
  "DITError_init s2u d err =
     (case COMError_init s2u err of
        Inl e \<Rightarrow> Inl e
      | Inr self0 \<Rightarrow>
          let self1 = (if truthy (Operation d) then self0\<lparr>err_source := Operation d\<rparr> else self0);
              self2 = self1\<lparr>err_param_info := ParameterInfo d\<rparr>;
              self3 = (if truthy (Description d) then self2\<lparr>err_description := Description d\<rparr>
                       else self2);
              self4 = (case stat_code_search (GetObjectText d) of
                         Some ds \<Rightarrow> self3\<lparr>err_code := hex (int_of_digits ds)\<rparr>
                       | None \<Rightarrow> self3)
          in Inr (self4\<lparr>err_handle := Raw_dit d\<rparr>))"

text \<open>
  \<^verbatim>\<open>dit_error_info()\<close>: the argument is the outcome of
  \<^verbatim>\<open>Dispatch("WbemScripting.SWbemLastError")\<close>, a \<^verbatim>\<open>com_error\<close> when the provider
  has no error information, the error object otherwise.
\<close>

definition dit_error_info :: "com_args + dit_err \<Rightarrow> dit_err option" where
  "dit_error_info outcome = (case outcome of Inl _ \<Rightarrow> None | Inr dc_e \<Rightarrow> Some dc_e)"

text \<open>
  \<^verbatim>\<open>handle_error()\<close>: \<^verbatim>\<open>raise cls()\<close>, so the value is the exception raised: the
  one constructed, or the one its constructor raises.
\<close>

definition handle_error :: "(int \<Rightarrow> int) \<Rightarrow> com_args + dit_err \<Rightarrow> comi_error \<Rightarrow> exn" where
  "handle_error s2u outcome inflight =
     (case dit_error_info outcome of
        Some err \<Rightarrow> (case DITError_init s2u err inflight of Inl e \<Rightarrow> e | Inr f \<Rightarrow> DITError f)
      | None \<Rightarrow> (case COMError_init s2u inflight of Inl e \<Rightarrow> e | Inr f \<Rightarrow> COMError f))"

section \<open>Status tables (region Status of dit.py)\<close>

text \<open>
  \<^verbatim>\<open>HWStatus(OrderedDict)\<close>: an insertion-ordered dictionary from status code to
  name. It is an association list with distinct keys; \<open>od_setitem\<close> is
  \<^verbatim>\<open>self[k] = v\<close> (overwrite in place, or append a new key), \<open>od_init\<close> is the
  constructor from a list of pairs.
\<close>

type_synonym ordered_dict = "(int \<times> string) list"

definition od_setitem :: "ordered_dict \<Rightarrow> int \<Rightarrow> string \<Rightarrow> ordered_dict" where
  "od_setitem d k v =
     (if k \<in> fst ` set d then map (\<lambda>(k', v'). if k' = k then (k', v) else (k', v')) d
      else d @ [(k, v)])"

definition od_init :: "(int \<times> string) list \<Rightarrow> ordered_dict" where
  "od_init kvs = foldl (\<lambda>d (k, v). od_setitem d k v) [] kvs"

definition od_getitem :: "ordered_dict \<Rightarrow> int \<Rightarrow> exn + string" where
  "od_getitem d k = (case map_of d k of None \<Rightarrow> Inl (KeyError (PInt k)) | Some v \<Rightarrow> Inr v)"

text \<open>
  A status table is its dictionary together with the \<^verbatim>\<open>decode\<close> method its class
  resolves to: \<^verbatim>\<open>HWStatus.decode\<close>, or the override \<^verbatim>\<open>_OutputStatus.decode\<close>
  (inherited by \<^verbatim>\<open>_InputStatus\<close>).
\<close>

datatype decode_method = HWStatus_method | OutputStatus_method

record hwstatus =
  items :: ordered_dict
  decode_method_of :: decode_method

text \<open>
  \<^verbatim>\<open>return [self[code] for code in self if code & status or code == 0]\<close>.
  Iterating the dictionary yields its keys in insertion order and \<^verbatim>\<open>self[code]\<close>
  is the value stored with that key, so the comprehension runs over the entries.
  Python's \<^verbatim>\<open>&\<close> on unbounded integers is two's complement, as \<open>AND\<close> on \<open>int\<close>.
\<close>

definition HWStatus_decode :: "ordered_dict \<Rightarrow> int \<Rightarrow> exn + string list" where
  "HWStatus_decode d status =
     Inr (map snd (filter (\<lambda>(code, _). code AND status \<noteq> 0 \<or> code = 0) d))"

text \<open>\<^verbatim>\<open>return [self[status]]\<close>\<close>

definition OutputStatus_decode :: "ordered_dict \<Rightarrow> int \<Rightarrow> exn + string list" where
  "OutputStatus_decode d status =
     (case od_getitem d status of Inl e \<Rightarrow> Inl e | Inr v \<Rightarrow> Inr [v])"

definition decode :: "hwstatus \<Rightarrow> int \<Rightarrow> exn + string list" where
  "decode t status =
     (case decode_method_of t of
        HWStatus_method \<Rightarrow> HWStatus_decode (items t) status
      | OutputStatus_method \<Rightarrow> OutputStatus_decode (items t) status)"

text \<open>The constructors of the private status classes.\<close>

definition DeviceStatus_items :: ordered_dict where
  "DeviceStatus_items = od_init
     [(0x1, ''ONLINE_STATUS''),
      (0x2, ''OPTIONS_MISMATCH_STATUS''),
      (0x4, ''CABINET_TAMPER''),
      (0x8, ''POWER_FAIL'')]"

definition PanelStatus_items :: ordered_dict where
  "PanelStatus_items = od_setitem DeviceStatus_items 0x10 ''DOWNLOADING_FIRMWARE''"

definition ReaderStatus_items :: ordered_dict where
  "ReaderStatus_items = od_init
     [(0x1, ''RDRSTATUS_ONLINE''),
      (0x2, ''RDRSTATUS_OPTION_MISTMATCH''),
      (0x4, ''RDRSTATUS_CNTTAMPER''),
      (0x8, ''RDRSTATUS_PWR_FAIL''),
      (0x10, ''RDRSTATUS_TAMPER''),
      (0x20, ''RDRSTATUS_FORCED''),
      (0x40, ''RDRSTATUS_HELD ''),
      (0x80, ''RDRSTATUS_AUX ''),
      (0x100, ''RDRSTATUS_AUX2''),
      (0x400, ''RDRSTATUS_AUX3''),
      (0x800, ''RDRSTATUS_BIO_VERIFY''),
      (0x1000, ''RDRSTATUS_DC_GND_FLT''),
      (0x2000, ''RDRSTATUS_DC_SHRT_FLT''),
      (0x4000, ''RDRSTATUS_DC_OPEN_FLT''),
      (0x8000, ''RDRSTATUS_DC_GEN_FLT''),
      (0x10000, ''RDRSTATUS_RX_GND_FLT''),
      (0x20000, ''RDRSTATUS_RX_SHRT_FLT''),
      (0x40000, ''RDRSTATUS_RX_OPEN_FLT''),
      (0x80000, ''RDRSTATUS_RX_GEN_FLT''),
      (0x100000, ''RDRSTATUS_FIRST_CARD_UNLOCK''),
      (0x200000, ''RDRSTATUS_EXTENDED_HELD_MODE''),
      (0x400000, ''RDRSTATUS_CIPHER_MODE''),
      (0x800000, ''RDRSTATUS_LOW_BATTERY''),
      (0x1000000, ''RDRSTATUS_MOTOR_STALLED''),
      (0x2000000, ''RDRSTATUS_READHEAD_OFFLINE''),
      (0x4000000, ''MRDT_ORDRSTATUS_MRDT_OFFLINEFFLINE''),
      (0x8000000, ''RDRSTATUS_DOOR_CONTACT_OFFLINE'')]"

definition OutputStatus_items :: ordered_dict where
  "OutputStatus_items =
     od_setitem (od_setitem (od_init []) 0x0 ''ALRM_STATUS_SECURE'') 0x1 ''ALRM_STATUS_ACTIVE ''"

definition InputStatus_items :: ordered_dict where
  "InputStatus_items =
     od_setitem (od_setitem (od_setitem (od_setitem (od_setitem OutputStatus_items
       0x2 ''ALRM_STATUS_GND_FLT'')
       0x3 ''ALRM_STATUS_SHRT_FLT'')
       0x4 ''ALRM_STATUS_OPEN_FLT'')
       0x5 ''ALRM_STATUS_GEN_FLT'')
       0x100 ''ALRM_STATUS_MASKED''"

definition PANEL_STATUS :: hwstatus where
  "PANEL_STATUS = \<lparr>items = PanelStatus_items, decode_method_of = HWStatus_method\<rparr>"

definition ALARM_PANEL_STATUS :: hwstatus where
  "ALARM_PANEL_STATUS = \<lparr>items = DeviceStatus_items, decode_method_of = HWStatus_method\<rparr>"

definition READER_STATUS :: hwstatus where
  "READER_STATUS = \<lparr>items = ReaderStatus_items, decode_method_of = HWStatus_method\<rparr>"

definition OUTPUT_STATUS :: hwstatus where
  "OUTPUT_STATUS = \<lparr>items = OutputStatus_items, decode_method_of = OutputStatus_method\<rparr>"

definition INPUT_STATUS :: hwstatus where
  "INPUT_STATUS = \<lparr>items = InputStatus_items, decode_method_of = OutputStatus_method\<rparr>"

definition status_cls :: "(string \<times> hwstatus) list" where
  "status_cls =
     [(''Lnl_Panel'', PANEL_STATUS),
      (''Lnl_AlarmPanel'', ALARM_PANEL_STATUS),
      (''Lnl_Reader'', READER_STATUS),
      (''Lnl_AlarmInput'', INPUT_STATUS),
      (''Lnl_AlarmOutput'', OUTPUT_STATUS),
      (''Lnl_ReaderInput'', INPUT_STATUS),
      (''Lnl_ReaderInput1'', INPUT_STATUS),
      (''Lnl_ReaderInput2'', INPUT_STATUS),
      (''Lnl_ReaderOutput'', OUTPUT_STATUS),
      (''Lnl_ReaderOutput1'', OUTPUT_STATUS),
      (''Lnl_ReaderOutput2'', OUTPUT_STATUS)]"

text \<open>
  \<^verbatim>\<open>decode_status(device, dit_status)\<close>. Of the device only \<^verbatim>\<open>wmi_class()\<close> and
  \<^verbatim>\<open>derivation()\<close> (the names of its parent classes, nearest first) are read.
  The \<^verbatim>\<open>for ... else\<close> loop takes the first parent that is a key of the table.
\<close>

record device =
  wmi_class :: string
  derivation :: "string list"

fun first_parent :: "string list \<Rightarrow> hwstatus option" where
  "first_parent [] = None"
| "first_parent (parent_cls # rest) =
     (case map_of status_cls parent_cls of
        Some status_dic \<Rightarrow> Some status_dic
      | None \<Rightarrow> first_parent rest)"

definition decode_status :: "device \<Rightarrow> int \<Rightarrow> exn + string list" where
  "decode_status dev dit_status =
     (case map_of status_cls (wmi_class dev) of
        Some status_dic \<Rightarrow> decode status_dic dit_status
      | None \<Rightarrow>
          (case first_parent (derivation dev) of
             Some status_dic \<Rightarrow> decode status_dic dit_status
           | None \<Rightarrow> Inl (ValueError (''Unknown hardware device \"'' @ wmi_class dev @ ''\"''))))"

text \<open>
  The reading of an ORed status that the tables are compared with: a code is encoded in
  a status when all of its bits are set there. A flag code is zero or a single bit.
\<close>

definition encoded_in :: "int \<Rightarrow> int \<Rightarrow> bool" where
  "encoded_in code status \<longleftrightarrow> code AND status = code"

definition encoded_statuses :: "ordered_dict \<Rightarrow> int \<Rightarrow> string list" where
  "encoded_statuses d status = map snd (filter (\<lambda>(code, _). encoded_in code status) d)"

definition flag_code :: "int \<Rightarrow> bool" where
  "flag_code c \<longleftrightarrow> c = 0 \<or> (\<exists>k. c = 2 ^ k)"

definition or_codes :: "int list \<Rightarrow> int" where
  "or_codes cs = fold (OR) cs 0"

section \<open>The provider and the calls made to it\<close>

text \<open>
  A Python \<^verbatim>\<open>dict\<close> (and an instance's \<^verbatim>\<open>__dict__\<close>) is an association list with
  distinct keys in insertion order. \<open>dict_setitem\<close> is \<^verbatim>\<open>d[k] = v\<close>, \<open>dict_update\<close>
  is \<^verbatim>\<open>d.update(e)\<close>, \<open>dict_of\<close> is \<^verbatim>\<open>dict(pairs)\<close>.
\<close>

type_synonym ('k, 'v) dict = "('k \<times> 'v) list"

definition dict_setitem :: "('k, 'v) dict \<Rightarrow> 'k \<Rightarrow> 'v \<Rightarrow> ('k, 'v) dict" where
  "dict_setitem d k v =
     (if k \<in> fst ` set d then map (\<lambda>(k', v'). if k' = k then (k', v) else (k', v')) d
      else d @ [(k, v)])"

definition dict_update :: "('k, 'v) dict \<Rightarrow> ('k \<times> 'v) list \<Rightarrow> ('k, 'v) dict" where
  "dict_update d e = foldl (\<lambda>d (k, v). dict_setitem d k v) d e"

definition dict_of :: "('k \<times> 'v) list \<Rightarrow> ('k, 'v) dict" where
  "dict_of e = dict_update [] e"

text \<open>
  COM objects (the locator, the services object, the namespace, the OLE objects behind
  the elements, the event sources) are handles of type \<open>'h\<close>; the state of the provider,
  the remote store included, is of type \<open>'r\<close>. The world is that state and the log of the
  calls that the module made to the provider and to its parent classes.
\<close>

datatype call =
    Call_CoInitialize
  | Call_Dispatch string
  | Call_ConnectServer string string string string
  | Call_WMI
  | Call_ExecNotificationQuery string
  | Call_NextEvent
  | Call_query string
  | Call_Get string
  | Call_SpawnInstance string
  | Call_Put
  | Call_OpenDoor
  | Call_set "(string \<times> pyval) list"
  | Call_setattr string pyval

record 'r world =
  remote :: 'r
  calls :: "call list"

text \<open>
  The value of a property of an event instance: a scalar or an embedded object, given by
  the (Name, Value) pairs of its \<^verbatim>\<open>Properties_\<close>. A \<open>Dict\<close> is the Python dictionary
  that \<^verbatim>\<open>_to_dict\<close> builds.
\<close>

datatype evval =
    Scalar pyval
  | Object "(string \<times> evval) list"
  | Dict "(string \<times> evval) list"

text \<open>
  The event that the parent watcher delivers: its \<^verbatim>\<open>Properties_\<close> and, for software
  events, the attribute \<^verbatim>\<open>previous\<close> (an instance or None).
\<close>

record wmi_event =
  Properties :: "(string \<times> evval) list"
  previous :: "(string \<times> evval) list option"

text \<open>A member of an element's \<^verbatim>\<open>__dict__\<close>: a COM handle or a local value.\<close>

datatype 'h member = Handle 'h | Local pyval

type_synonym 'h members = "(string, 'h member) dict"

text \<open>
  The module \<^verbatim>\<open>_wmii\<close> (the parent classes \<^verbatim>\<open>_wmi_object\<close> and \<^verbatim>\<open>_wmi_watcher\<close>, the
  namespace, \<^verbatim>\<open>signed_to_unsigned\<close>), \<^verbatim>\<open>win32com\<close> and \<^verbatim>\<open>pythoncom\<close> are not part
  of the sources. Each of their operations that the module calls is a field of the
  platform: it reads the provider's state and returns its result, an exception as
  \<open>Inl\<close>, with the new state.
  \<^item> \<open>wmi_object_init\<close>, \<open>wmi_object_set\<close>, \<open>wmi_object_setattr\<close>: the methods
    \<^verbatim>\<open>__init__\<close>, \<^verbatim>\<open>set\<close> and \<^verbatim>\<open>__setattr__\<close> of \<^verbatim>\<open>_wmi_object\<close>, reached by
    \<^verbatim>\<open>super()\<close>; the first gives the attributes it assigns, in order;
  \<^item> \<open>wmi_object_getattr\<close>, \<open>wmi_object_str\<close>: \<^verbatim>\<open>getattr(r, name)\<close> on a query result
    and \<^verbatim>\<open>str(element)\<close>;
  \<^item> \<open>Path_Path\<close>, \<open>Put_Relpath\<close>, \<open>OpenDoor\<close>: \<^verbatim>\<open>self.Path_.Path\<close>,
    \<^verbatim>\<open>self.Put_().Relpath\<close> and \<^verbatim>\<open>self.OpenDoor()\<close>, delegated to the OLE object;
  \<^item> \<open>NextEvent\<close>: \<^verbatim>\<open>_wmi_watcher.__call__()\<close>, which blocks until an event arrives:
    \<open>None\<close> when none ever does and the call does not return;
  \<^item> \<open>SWbemLastError\<close>: the outcome of \<^verbatim>\<open>Dispatch("WbemScripting.SWbemLastError")\<close>.
\<close>

record ('h, 'r) platform =
  signed_to_unsigned :: "int \<Rightarrow> int"
  SWbemLastError :: "'r \<Rightarrow> com_args + dit_err"
  CoInitialize :: "'r \<Rightarrow> (exn + unit) \<times> 'r"
  Dispatch :: "string \<Rightarrow> 'r \<Rightarrow> (exn + 'h) \<times> 'r"
  ConnectServer :: "'h \<Rightarrow> string \<Rightarrow> string \<Rightarrow> string \<Rightarrow> string \<Rightarrow> 'r \<Rightarrow> (exn + 'h) \<times> 'r"
  WMI :: "'h \<Rightarrow> 'r \<Rightarrow> (exn + 'h) \<times> 'r"
  ExecNotificationQuery :: "'h \<Rightarrow> string \<Rightarrow> 'r \<Rightarrow> (exn + 'h) \<times> 'r"
  NextEvent :: "'h \<Rightarrow> 'r \<Rightarrow> ((exn + wmi_event) \<times> 'r) option"
  query :: "'h \<Rightarrow> string \<Rightarrow> 'r \<Rightarrow> (exn + 'h list) \<times> 'r"
  Get :: "'h \<Rightarrow> string \<Rightarrow> 'r \<Rightarrow> (exn + 'h) \<times> 'r"
  SpawnInstance :: "'h \<Rightarrow> string \<Rightarrow> 'r \<Rightarrow> (exn + 'h) \<times> 'r"
  wmi_object_init :: "'h option \<Rightarrow> 'r \<Rightarrow> exn + (string \<times> 'h member) list"
  wmi_object_set :: "'h members \<Rightarrow> (string \<times> pyval) list \<Rightarrow> 'r \<Rightarrow> (exn + 'h members) \<times> 'r"
  wmi_object_setattr :: "'h members \<Rightarrow> string \<Rightarrow> pyval \<Rightarrow> 'r \<Rightarrow> (exn + 'h members) \<times> 'r"
  wmi_object_getattr :: "'h \<Rightarrow> string \<Rightarrow> 'r \<Rightarrow> exn + pyval"
  wmi_object_str :: "'h members \<Rightarrow> string"
  Path_Path :: "'h members \<Rightarrow> 'r \<Rightarrow> string"
  Put_Relpath :: "'h members \<Rightarrow> 'r \<Rightarrow> (exn + string) \<times> 'r"
  OpenDoor :: "'h members \<Rightarrow> 'r \<Rightarrow> (exn + unit) \<times> 'r"

text \<open>A call to the provider: it runs on the provider's state and is logged.\<close>

definition invoke :: "call \<Rightarrow> ('r \<Rightarrow> (exn + 'a) \<times> 'r) \<Rightarrow> 'r world \<Rightarrow> (exn + 'a) \<times> 'r world" where
  "invoke c f w = (case f (remote w) of (res, r') \<Rightarrow> (res, \<lparr>remote = r', calls = calls w @ [c]\<rparr>))"

text \<open>
  \<^verbatim>\<open>try: ... except _COMI_ERROR: handle_error()\<close>: a com_error or x_wmi in flight is
  replaced by what \<^verbatim>\<open>handle_error\<close> raises; any other exception propagates.
\<close>

definition catch_comi :: "('h, 'r) platform \<Rightarrow> (exn + 'a) \<times> 'r world \<Rightarrow> (exn + 'a) \<times> 'r world" where
  "catch_comi P out =
     (case out of
        (Inl (Raised err), w) \<Rightarrow>
          (Inl (handle_error (signed_to_unsigned P) (SWbemLastError P (remote w)) err), w)
      | (res, w) \<Rightarrow> (res, w))"

section \<open>DITElement\<close>

text \<open>
  \<^verbatim>\<open>DITElement.__init__\<close> up to and including \<^verbatim>\<open>self.__dict__["_namespace"] = connection\<close>.
  \<open>connection\<close> is the namespace (of a \<^verbatim>\<open>DITConnection\<close>, its \<^verbatim>\<open>namespace\<close>).
  The instance's \<^verbatim>\<open>__dict__\<close> starts empty and takes the parent's attributes.
\<close>

definition DITElement_new ::
  "('h, 'r) platform \<Rightarrow> 'h \<Rightarrow> string \<Rightarrow> 'h option \<Rightarrow> 'r world \<Rightarrow> (exn + 'h members) \<times> 'r world" where
  "DITElement_new P connection lnl_class ole_obj w =
     (case catch_comi P
        (if lnl_class \<noteq> []
         then (case invoke (Call_SpawnInstance lnl_class) (SpawnInstance P connection lnl_class) w of
                 (Inl e, w1) \<Rightarrow> (Inl e, w1)
               | (Inr ole_object, w1) \<Rightarrow> (wmi_object_init P (Some ole_object) (remote w1), w1))
         else (wmi_object_init P ole_obj (remote w), w)) of
        (Inl e, w1) \<Rightarrow> (Inl e, w1)
      | (Inr attrs, w1) \<Rightarrow> (Inr (dict_setitem (dict_of attrs) ''_namespace'' (Handle connection)), w1))"

text \<open>
  \<^verbatim>\<open>DITElement.__refresh(obj_path)\<close>. The fresh instance is built with \<^verbatim>\<open>ole_obj=new_obj\<close>,
  which is not None, so its constructor stops before \<^verbatim>\<open>self.set(**kwargs)\<close>.
\<close>

definition refresh ::
  "('h, 'r) platform \<Rightarrow> 'h members \<Rightarrow> string \<Rightarrow> 'r world \<Rightarrow> (exn + 'h members) \<times> 'r world" where
  "refresh P self obj_path w =
     (case map_of self ''_namespace'' of
        Some (Handle ns) \<Rightarrow>
          (case catch_comi P (invoke (Call_Get obj_path) (Get P ns obj_path) w) of
             (Inl e, w1) \<Rightarrow> (Inl e, w1)
           | (Inr new_obj, w1) \<Rightarrow>
               (case DITElement_new P ns [] (Some new_obj) w1 of
                  (Inl e, w2) \<Rightarrow> (Inl e, w2)
                | (Inr fresh, w2) \<Rightarrow> (Inr (dict_update self fresh), w2)))
      | _ \<Rightarrow> (Inl (AttributeError ''_namespace''), w))"

text \<open>\<^verbatim>\<open>DITElement._commit()\<close>\<close>

definition commit ::
  "('h, 'r) platform \<Rightarrow> 'h members \<Rightarrow> 'r world \<Rightarrow> (exn + 'h members) \<times> 'r world" where
  "commit P self w =
     (let obj_path = Path_Path P self (remote w) in
      if obj_path \<noteq> [] then refresh P self obj_path w
      else (case catch_comi P (invoke Call_Put (Put_Relpath P self) w) of
              (Inl e, w1) \<Rightarrow> (Inl e, w1)
            | (Inr relpath, w1) \<Rightarrow> refresh P self relpath w1))"

text \<open>\<^verbatim>\<open>DITElement.set(**kwargs)\<close> and \<^verbatim>\<open>DITElement.__setattr__(key, value)\<close>\<close>

definition DITElement_set ::
  "('h, 'r) platform \<Rightarrow> 'h members \<Rightarrow> (string \<times> pyval) list \<Rightarrow> 'r world
     \<Rightarrow> (exn + 'h members) \<times> 'r world" where
  "DITElement_set P self kwargs w =
     (case catch_comi P (invoke (Call_set kwargs) (wmi_object_set P self kwargs) w) of
        (Inl e, w1) \<Rightarrow> (Inl e, w1)
      | (Inr self1, w1) \<Rightarrow> commit P self1 w1)"

definition DITElement_setattr ::
  "('h, 'r) platform \<Rightarrow> 'h members \<Rightarrow> string \<Rightarrow> pyval \<Rightarrow> 'r world
     \<Rightarrow> (exn + 'h members) \<times> 'r world" where
  "DITElement_setattr P self key val w =
     (case catch_comi P (invoke (Call_setattr key val) (wmi_object_setattr P self key val) w) of
        (Inl e, w1) \<Rightarrow> (Inl e, w1)
      | (Inr self1, w1) \<Rightarrow> commit P self1 w1)"


text \<open>
  A client that mutates an element several times in a row: each mutation is an
  attribute assignment or a call of \<^verbatim>\<open>set(**kwargs)\<close>, and an exception ends the run.
\<close>

datatype mutation = Assign string pyval | Set_kwargs "(string \<times> pyval) list"

fun mutate ::
  "('h, 'r) platform \<Rightarrow> 'h members \<Rightarrow> mutation \<Rightarrow> 'r world \<Rightarrow> (exn + 'h members) \<times> 'r world" where
  "mutate P self (Assign key val) w = DITElement_setattr P self key val w"
| "mutate P self (Set_kwargs kwargs) w = DITElement_set P self kwargs w"

fun mutations ::
  "('h, 'r) platform \<Rightarrow> 'h members \<Rightarrow> mutation list \<Rightarrow> 'r world \<Rightarrow> (exn + 'h members) \<times> 'r world" where
  "mutations P self [] w = (Inr self, w)"
| "mutations P self (m # ms) w =
     (case mutate P self m w of
        (Inl e, w1) \<Rightarrow> (Inl e, w1)
      | (Inr self1, w1) \<Rightarrow> mutations P self1 ms w1)"

section \<open>Watchers\<close>

text \<open>
  \<^verbatim>\<open>_DITWatcher.__init__\<close>: the notification query is issued; on success the parent is
  initialised with the event source and \<^verbatim>\<open>is_extrinsic\<close>.
\<close>

record 'h watcher =
  wmi_event_source :: 'h
  is_extrinsic :: bool

definition DITWatcher_init ::
  "('h, 'r) platform \<Rightarrow> 'h \<Rightarrow> string \<Rightarrow> bool \<Rightarrow> 'r world \<Rightarrow> (exn + 'h watcher) \<times> 'r world" where
  "DITWatcher_init P connection notification_wql extrinsic w =
     (case catch_comi P
        (invoke (Call_ExecNotificationQuery notification_wql)
           (ExecNotificationQuery P connection notification_wql) w) of
        (Inl e, w1) \<Rightarrow> (Inl e, w1)
      | (Inr ev, w1) \<Rightarrow> (Inr \<lparr>wmi_event_source = ev, is_extrinsic = extrinsic\<rparr>, w1))"

text \<open>\<^verbatim>\<open>_DITWatcher._to_dict(wmi_obj)\<close>: \<^verbatim>\<open>{p.Name: p.Value for p in wmi_obj.Properties_}\<close>\<close>

definition to_dict :: "evval \<Rightarrow> exn + (string, evval) dict" where
  "to_dict wmi_obj =
     (case wmi_obj of
        Object ps \<Rightarrow> Inr (dict_of ps)
      | _ \<Rightarrow> Inl (AttributeError ''Properties_''))"

text \<open>
  \<^verbatim>\<open>_DITWatcher.__call__\<close>: the parent's call, which blocks; \<open>None\<close> is the call that
  never returns.
\<close>

definition DITWatcher_call ::
  "('h, 'r) platform \<Rightarrow> 'h watcher \<Rightarrow> 'r world \<Rightarrow> ((exn + wmi_event) \<times> 'r world) option" where
  "DITWatcher_call P watcher w =
     (case NextEvent P (wmi_event_source watcher) (remote w) of
        None \<Rightarrow> None
      | Some (res, r') \<Rightarrow>
          Some (catch_comi P (res, \<lparr>remote = r', calls = calls w @ [Call_NextEvent]\<rparr>)))"

text \<open>\<^verbatim>\<open>HWatcher\<close>\<close>

definition HWatcher_init ::
  "('h, 'r) platform \<Rightarrow> 'h \<Rightarrow> string \<Rightarrow> 'r world \<Rightarrow> (exn + 'h watcher) \<times> 'r world" where
  "HWatcher_init P connection EventClass w =
     DITWatcher_init P connection (''SELECT * FROM '' @ EventClass) True w"

definition HWatcher_call ::
  "('h, 'r) platform \<Rightarrow> 'h watcher \<Rightarrow> 'r world
     \<Rightarrow> ((exn + (string, evval) dict) \<times> 'r world) option" where
  "HWatcher_call P watcher w =
     (case DITWatcher_call P watcher w of
        None \<Rightarrow> None
      | Some (Inl e, w1) \<Rightarrow> Some (Inl e, w1)
      | Some (Inr event, w1) \<Rightarrow>
          Some
            (let dict_evt = dict_of (Properties event) in
             case map_of dict_evt ''Alarm'' of
               None \<Rightarrow> Inl (KeyError (PStr ''Alarm''))
             | Some alarm \<Rightarrow>
                 (case to_dict alarm of
                    Inl e \<Rightarrow> Inl e
                  | Inr d \<Rightarrow> Inr (dict_setitem dict_evt ''Alarm'' (Dict d))),
             w1))"

text \<open>\<^verbatim>\<open>SWatcher\<close>\<close>

definition targets :: "string list" where
  "targets = [''lnl_cardholder'', ''lnl_visitor'', ''lnl_badge'', ''lnl_account'']"

definition SWatcher_init ::
  "('h, 'r) platform \<Rightarrow> 'h \<Rightarrow> string \<Rightarrow> string \<Rightarrow> 'r world \<Rightarrow> (exn + 'h watcher) \<times> 'r world" where
  "SWatcher_init P connection TargetCls operation w =
     (if lower TargetCls \<notin> set targets
      then (Inl (ValueError (''Invalid target class: '' @ TargetCls)), w)
      else DITWatcher_init P connection
             (''select * from '' @ operation @ '' where TargetInstance ISA '' @ [CHR 0x27]
                @ TargetCls @ [CHR 0x27])
             False w)"

definition SWatcher_call ::
  "('h, 'r) platform \<Rightarrow> 'h watcher \<Rightarrow> 'r world
     \<Rightarrow> ((exn + (string, evval) dict) \<times> 'r world) option" where
  "SWatcher_call P watcher w =
     (case DITWatcher_call P watcher w of
        None \<Rightarrow> None
      | Some (Inl e, w1) \<Rightarrow> Some (Inl e, w1)
      | Some (Inr event, w1) \<Rightarrow>
          Some
            (let dict_evt = dict_of (Properties event) in
             Inr (dict_setitem dict_evt ''previous''
                    (case previous event of
                       Some p \<Rightarrow> Dict (dict_of p)
                     | None \<Rightarrow> Scalar PNone)),
             w1))"

section \<open>DITConnection\<close>

text \<open>
  \<^verbatim>\<open>DITConnection\<close> keeps the namespace in \<^verbatim>\<open>self._namespace\<close>; the property
  \<^verbatim>\<open>namespace\<close> returns it.
\<close>

record 'h DITConnection =
  private_namespace :: 'h

definition namespace :: "'h DITConnection \<Rightarrow> 'h" where
  "namespace self = private_namespace self"

subsection \<open>data_query\<close>










subsection \<open>open_door\<close>







subsection \<open>Event subscriptions\<close>

definition HWEvent :: string where
  "HWEvent = ''Lnl_SecurityEvent''"

definition SWOperationEvent :: string where
  "SWOperationEvent = ''__InstanceOperationEvent''"

definition hardware_events ::
  "('h, 'r) platform \<Rightarrow> 'h DITConnection \<Rightarrow> string \<Rightarrow> 'r world \<Rightarrow> (exn + 'h watcher) \<times> 'r world" where
  "hardware_events P self EventClass w = HWatcher_init P (private_namespace self) EventClass w"

definition software_events ::
  "('h, 'r) platform \<Rightarrow> 'h DITConnection \<Rightarrow> string \<Rightarrow> string \<Rightarrow> 'r world
     \<Rightarrow> (exn + 'h watcher) \<times> 'r world" where
  "software_events P self TargetCls operation w =
     SWatcher_init P (private_namespace self) TargetCls operation w"

section \<open>Connection bootstrap\<close>

text \<open>The WMI namespace of OnGuard: Root, a backslash, OnGuard.\<close>

definition OnGuard_namespace :: string where
  "OnGuard_namespace = ''Root'' @ [CHR 0x5C] @ ''OnGuard''"

text \<open>\<^verbatim>\<open>_connect_dit(server, username, password, coinitialize)\<close>, also bound to \<^verbatim>\<open>DIT\<close>.\<close>

definition connect_dit ::
  "('h, 'r) platform \<Rightarrow> string \<Rightarrow> string \<Rightarrow> string \<Rightarrow> bool \<Rightarrow> 'r world
     \<Rightarrow> (exn + 'h DITConnection) \<times> 'r world" where
  "connect_dit P server username password coinitialize w =
     (case catch_comi P
        (case (if coinitialize then invoke Call_CoInitialize (CoInitialize P) w else (Inr (), w)) of
           (Inl e, w1) \<Rightarrow> (Inl e, w1)
         | (Inr _, w1) \<Rightarrow>
             (case invoke (Call_Dispatch ''WbemScripting.SWbemLocator'')
                     (Dispatch P ''WbemScripting.SWbemLocator'') w1 of
                (Inl e, w2) \<Rightarrow> (Inl e, w2)
              | (Inr locator, w2) \<Rightarrow>
                  (case invoke (Call_ConnectServer server OnGuard_namespace username password)
                          (ConnectServer P locator server OnGuard_namespace username password) w2 of
                     (Inl e, w3) \<Rightarrow> (Inl e, w3)
                   | (Inr wbemsvc, w3) \<Rightarrow> invoke Call_WMI (WMI P wbemsvc) w3))) of
        (Inl e, w') \<Rightarrow> (Inl e, w')
      | (Inr conn, w') \<Rightarrow> (Inr \<lparr>private_namespace = conn\<rparr>, w'))"

definition DIT ::
  "('h, 'r) platform \<Rightarrow> string \<Rightarrow> string \<Rightarrow> string \<Rightarrow> bool \<Rightarrow> 'r world
     \<Rightarrow> (exn + 'h DITConnection) \<times> 'r world" where
  "DIT = connect_dit"

text \<open>The call with every argument left at its default.\<close>

definition DIT_default :: "('h, 'r) platform \<Rightarrow> 'r world \<Rightarrow> (exn + 'h DITConnection) \<times> 'r world" where
  "DIT_default P w = DIT P ''.'' [] [] False w"

section \<open>Reference notions for the claims on queries\<close>




text \<open>
  The value of the property named \<open>n\<close> of an instance with the properties \<open>ps\<close>; were a
  name listed twice, the later entry would count, as in a dictionary built in order.
\<close>

definition property_value :: "(string \<times> 'v) list \<Rightarrow> string \<Rightarrow> 'v option" where
  "property_value ps n = map_of (rev ps) n"

text \<open>
  The calls of a run of mutations in which every mutation is committed on its own: the
  parent's call of the mutation, then the calls of one \<^verbatim>\<open>_commit\<close> (a put, if any, and
  the fetch of the refresh), and so on for the mutations that follow.
\<close>

fun call_of :: "mutation \<Rightarrow> call" where
  "call_of (Assign key val) = Call_setattr key val"
| "call_of (Set_kwargs kwargs) = Call_set kwargs"

fun strip_commit :: "call list \<Rightarrow> call list option" where
  "strip_commit (Call_Put # Call_Get p # T) = Some T"
| "strip_commit (Call_Get p # T) = Some T"
| "strip_commit _ = None"

fun committed_each :: "mutation list \<Rightarrow> call list \<Rightarrow> bool" where
  "committed_each [] T = (T = [])"
| "committed_each (m # ms) [] = False"
| "committed_each (m # ms) (c # T) =
     (c = call_of m \<and> (case strip_commit T of Some T' \<Rightarrow> committed_each ms T' | None \<Rightarrow> False))"

section \<open>A provider for the examples\<close>

text \<open>
  A small in-memory provider on which the module is run in the examples. Handles are
  numbers. The state holds the local COM objects (handle, path and properties), the
  remote store (path and properties), the rows that each query text answers with, the
  notifications not yet delivered and the outcome of asking for the last error.
  An object that is put without a path is stored under \<^verbatim>\<open>obj\<close> followed by its handle.
\<close>

type_synonym props = "(string \<times> pyval) list"

record demo_state =
  objs :: "(nat \<times> string \<times> props) list"
  store :: "(string \<times> props) list"
  answers :: "(string \<times> nat list) list"
  pending :: "(exn + wmi_event) list"
  last_error :: "com_args + dit_err"

definition generic_failure :: comi_error where
  "generic_failure =
     Com_error \<lparr>hresult = - 2147352567, strerror = PStr ''Exception occurred.'',
       excepinfo = Some \<lparr>ex_wcode = PInt 0, ex_source = PStr ''SWbemServicesEx'',
         ex_text = PStr ''Generic failure'', ex_helpfile = PNone, ex_helpid = PInt 0,
         ex_scode = PInt (- 2147217407)\<rparr>,
       argerror = PNone\<rparr>"

definition demo_obj :: "demo_state \<Rightarrow> nat members \<Rightarrow> (nat \<times> string \<times> props) option" where
  "demo_obj r self =
     (case map_of self ''ole_object'' of
        Some (Handle h) \<Rightarrow> (case map_of (objs r) h of Some (p, ps) \<Rightarrow> Some (h, p, ps) | None \<Rightarrow> None)
      | _ \<Rightarrow> None)"

text \<open>
  The parent's \<^verbatim>\<open>set\<close> and \<^verbatim>\<open>__setattr__\<close>: the properties are set on the local object.
  With \<open>write_through\<close> they also put the object when it has a path, as the comment in
  \<^verbatim>\<open>DITElement.__setattr__\<close> says of the parent; without it they only stage.
\<close>

definition demo_assign :: "bool \<Rightarrow> nat members \<Rightarrow> props \<Rightarrow> demo_state \<Rightarrow> (exn + nat members) \<times> demo_state" where
  "demo_assign write_through self kwargs r =
     (case demo_obj r self of
        None \<Rightarrow> (Inl (AttributeError ''ole_object''), r)
      | Some (h, p, ps) \<Rightarrow>
          (let ps' = dict_update ps kwargs;
               r1 = r\<lparr>objs := dict_setitem (objs r) h (p, ps')\<rparr>
           in (Inr self,
               if write_through \<and> p \<noteq> [] then r1\<lparr>store := dict_setitem (store r1) p ps'\<rparr> else r1)))"

definition demo_Put :: "nat members \<Rightarrow> demo_state \<Rightarrow> (exn + string) \<times> demo_state" where
  "demo_Put self r =
     (case demo_obj r self of
        None \<Rightarrow> (Inl (Raised generic_failure), r)
      | Some (h, p, ps) \<Rightarrow>
          (let path = (if p = [] then ''obj'' @ str_int (int h) else p)
           in (Inr path, r\<lparr>store := dict_setitem (store r) path ps\<rparr>)))"

definition demo_Get :: "nat \<Rightarrow> string \<Rightarrow> demo_state \<Rightarrow> (exn + nat) \<times> demo_state" where
  "demo_Get ns path r =
     (case map_of (store r) path of
        None \<Rightarrow> (Inl (Raised generic_failure), r)
      | Some ps \<Rightarrow> (Inr (length (objs r)), r\<lparr>objs := objs r @ [(length (objs r), path, ps)]\<rparr>))"

definition demo_getattr :: "nat \<Rightarrow> string \<Rightarrow> demo_state \<Rightarrow> exn + pyval" where
  "demo_getattr h name r =
     (case map_of (objs r) h of
        Some (p, ps) \<Rightarrow> (case map_of ps name of Some v \<Rightarrow> Inr v | None \<Rightarrow> Inl (AttributeError name))
      | None \<Rightarrow> Inl (AttributeError name))"

definition demo :: "bool \<Rightarrow> (nat, demo_state) platform" where
  "demo write_through =
     \<lparr>signed_to_unsigned = (\<lambda>h. h mod 2 ^ 32),
      SWbemLastError = last_error,
      CoInitialize = (\<lambda>r. (Inr (), r)),
      Dispatch = (\<lambda>name r. (Inr 100, r)),
      ConnectServer = (\<lambda>locator server ns user password r. (Inr 101, r)),
      WMI = (\<lambda>wbemsvc r. (Inr 102, r)),
      ExecNotificationQuery = (\<lambda>ns wql r. (Inr 103, r)),
      NextEvent = (\<lambda>src r. case pending r of [] \<Rightarrow> None | e # es \<Rightarrow> Some (e, r\<lparr>pending := es\<rparr>)),
      query = (\<lambda>ns wql r. (Inr (case map_of (answers r) wql of Some hs \<Rightarrow> hs | None \<Rightarrow> []), r)),
      Get = demo_Get,
      SpawnInstance = (\<lambda>ns cls r. (Inr (length (objs r)), r\<lparr>objs := objs r @ [(length (objs r), [], [])]\<rparr>)),
      wmi_object_init = (\<lambda>ole r. case ole of Some h \<Rightarrow> Inr [(''ole_object'', Handle h)]
                                   | None \<Rightarrow> Inl (AttributeError ''ole_object'')),
      wmi_object_set = demo_assign write_through,
      wmi_object_setattr = (\<lambda>self key val. demo_assign write_through self [(key, val)]),
      wmi_object_getattr = demo_getattr,
      wmi_object_str = (\<lambda>self. ''<_wmi_object>''),
      Path_Path = (\<lambda>self r. case demo_obj r self of Some (h, p, ps) \<Rightarrow> p | None \<Rightarrow> []),
      Put_Relpath = demo_Put,
      OpenDoor = (\<lambda>self r. (Inr (), r))\<rparr>"

text \<open>An empty provider, and a world on it with nothing logged.\<close>

definition demo_empty :: demo_state where
  "demo_empty =
     \<lparr>objs = [], store = [], answers = [], pending = [],
      last_error = Inl \<lparr>hresult = - 2147221005, strerror = PStr ''Invalid class string'',
        excepinfo = None, argerror = PNone\<rparr>\<rparr>"

definition world0 :: "'r \<Rightarrow> 'r world" where
  "world0 r = \<lparr>remote = r, calls = []\<rparr>"



text \<open>
  Two notifications: an access event with its embedded alarm, and the creation of a
  cardholder, which has no previous state.
\<close>

definition access_event :: wmi_event where
  "access_event =
     \<lparr>Properties =
        [(''AccessResult'', Scalar (PInt 2)),
         (''Alarm'', Object [(''Description'', Scalar (PStr ''Granted Access'')),
                            (''ID'', Scalar (PInt 1)),
                            (''Priority'', Scalar (PInt 50))]),
         (''CardNumber'', Scalar (PStr ''258963''))],
      previous = None\<rparr>"

definition cardholder_event :: wmi_event where
  "cardholder_event =
     \<lparr>Properties =
        [(''FIRSTNAME'', Scalar (PStr ''Valentina'')),
         (''ID'', Scalar (PInt 314)),
         (''LASTNAME'', Scalar (PStr ''Tereshkova''))],
      previous = None\<rparr>"

definition notified :: "wmi_event \<Rightarrow> demo_state" where
  "notified ev = demo_empty\<lparr>pending := [Inr ev]\<rparr>"

text \<open>
  A provider holding one spawned cardholder that was never saved (it has no path), and
  the element that wraps it.
\<close>

definition unsaved :: demo_state where
  "unsaved = demo_empty\<lparr>objs := [(0, [], [])]\<rparr>"

definition element0 :: "nat members" where
  "element0 = [(''ole_object'', Handle 0), (''_namespace'', Handle 102)]"

section \<open>Verification: status tables\<close>

lemma exp_and_int: "(2::int) ^ k AND s = (if bit s k then 2 ^ k else 0)"
  by (rule bit_eqI) (auto simp: bit_and_iff bit_exp_iff)

lemma flag_code_sel: "flag_code c \<Longrightarrow> (c AND s \<noteq> 0 \<or> c = 0) \<longleftrightarrow> encoded_in c s"
  by (auto simp: flag_code_def encoded_in_def exp_and_int split: if_splits)

lemma flag_code_and: "flag_code c \<Longrightarrow> c AND s = (if encoded_in c s then c else 0)"
  by (auto simp: flag_code_def encoded_in_def exp_and_int)

lemma or_fold_acc: "fold (OR) xs (a::int) = a OR fold (OR) xs 0"
proof (induction xs arbitrary: a)
  case Nil
  then show ?case by simp
next
  case (Cons x xs)
  have "fold (OR) (x # xs) a = (x OR a) OR fold (OR) xs 0"
    using Cons.IH [of "x OR a"] by simp
  moreover have "fold (OR) (x # xs) 0 = x OR fold (OR) xs 0"
    using Cons.IH [of x] by simp
  ultimately show ?case by (simp add: ac_simps)
qed

lemma or_codes_Cons: "or_codes (c # cs) = c OR or_codes cs"
  using or_fold_acc [of cs c] by (simp add: or_codes_def)

lemma or_codes_selected:
  assumes "\<forall>c \<in> fst ` set d. flag_code c"
  shows "or_codes (map fst (filter (\<lambda>(c, _). encoded_in c s) d)) = s AND or_codes (map fst d)"
  using assms
proof (induction d)
  case Nil
  then show ?case by (simp add: or_codes_def)
next
  case (Cons a d)
  obtain c n where a: "a = (c, n)" by (cases a)
  have fc: "flag_code c" using Cons.prems a by simp
  have ih: "or_codes (map fst (filter (\<lambda>(c, _). encoded_in c s) d)) = s AND or_codes (map fst d)"
    using Cons by simp
  have rhs: "s AND or_codes (map fst (a # d)) = (c AND s) OR (s AND or_codes (map fst d))"
    by (simp add: a or_codes_Cons bit.conj_disj_distrib and.commute)
  show ?case
  proof (cases "encoded_in c s")
    case True
    then have "c AND s = c" by (simp add: encoded_in_def)
    then show ?thesis using ih rhs True by (simp add: a or_codes_Cons)
  next
    case False
    then have "c AND s = 0" using flag_code_and [OF fc, of s] by simp
    then show ?thesis using ih rhs False by (simp add: a)
  qed
qed

lemma filter_flag_codes:
  assumes "\<forall>c \<in> fst ` set d. flag_code c"
  shows "filter (\<lambda>(code, _). code AND s \<noteq> 0 \<or> code = 0) d = filter (\<lambda>(code, _). encoded_in code s) d"
proof (rule filter_cong)
  fix x assume x: "x \<in> set d"
  obtain c n where cn: "x = (c, n)" by (cases x)
  have "flag_code c" using assms x cn by force
  then show "(case x of (code, _) \<Rightarrow> code AND s \<noteq> 0 \<or> code = 0)
      = (case x of (code, _) \<Rightarrow> encoded_in code s)"
    using flag_code_sel [of c s] by (simp add: cn)
qed simp

lemma flag_code_powers: "\<forall>c \<in> set (map (\<lambda>k. 2 ^ k) ks). flag_code c"
  by (auto simp: flag_code_def)

text \<open>The three bit-flag tables of the module: every code is a single bit.\<close>

lemma PANEL_STATUS_codes: "map fst (items PANEL_STATUS) = map (\<lambda>k. 2 ^ k) [0..<5]"
  by (simp add: PANEL_STATUS_def PanelStatus_items_def DeviceStatus_items_def od_init_def
      od_setitem_def upt_rec)

lemma ALARM_PANEL_STATUS_codes: "map fst (items ALARM_PANEL_STATUS) = map (\<lambda>k. 2 ^ k) [0..<4]"
  by (simp add: ALARM_PANEL_STATUS_def DeviceStatus_items_def od_init_def od_setitem_def upt_rec)

lemma READER_STATUS_codes:
  "map fst (items READER_STATUS) = map (\<lambda>k. 2 ^ k) ([0..<9] @ [10..<28])"
  by (simp add: READER_STATUS_def ReaderStatus_items_def od_init_def od_setitem_def upt_rec)

lemma PANEL_STATUS_flags: "\<forall>c \<in> fst ` set (items PANEL_STATUS). flag_code c"
  using flag_code_powers [of "[0..<5]"] PANEL_STATUS_codes by (metis set_map)

lemma ALARM_PANEL_STATUS_flags: "\<forall>c \<in> fst ` set (items ALARM_PANEL_STATUS). flag_code c"
  using flag_code_powers [of "[0..<4]"] ALARM_PANEL_STATUS_codes by (metis set_map)

lemma READER_STATUS_flags: "\<forall>c \<in> fst ` set (items READER_STATUS). flag_code c"
  using flag_code_powers [of "[0..<9] @ [10..<28]"] READER_STATUS_codes by (metis set_map)

lemma bitflag_tables_method:
  "decode_method_of PANEL_STATUS = HWStatus_method"
  "decode_method_of ALARM_PANEL_STATUS = HWStatus_method"
  "decode_method_of READER_STATUS = HWStatus_method"
  by (simp_all add: PANEL_STATUS_def ALARM_PANEL_STATUS_def READER_STATUS_def)

text \<open>
  C6 (as stated, for every HWStatus table): refuted on the module's own input table,
  whose \<^verbatim>\<open>decode\<close> is the exact lookup of \<^verbatim>\<open>_OutputStatus\<close>: status 6 (the OR of the
  codes 2 and 4) raises KeyError and status 3 gives the single entry stored under 3, not
  the entries of 1 and 2. On a table that inherits \<^verbatim>\<open>HWStatus.decode\<close> but has a code
  of several bits, an entry is returned as soon as one of its bits is set.
\<close>

theorem decode_every_table_counterexample:
  "decode INPUT_STATUS 6 = Inl (KeyError (PInt 6))
   \<and> decode_status \<lparr>wmi_class = ''Lnl_AlarmInput'', derivation = []\<rparr> 6 = Inl (KeyError (PInt 6))
   \<and> decode INPUT_STATUS 3 = Inr [''ALRM_STATUS_SHRT_FLT'']
   \<and> decode \<lparr>items = od_init [(3, ''BOTH'')], decode_method_of = HWStatus_method\<rparr> 1 = Inr [''BOTH'']"
  by (simp add: decode_def decode_status_def status_cls_def INPUT_STATUS_def
      InputStatus_items_def OutputStatus_items_def OutputStatus_decode_def HWStatus_decode_def
      od_getitem_def od_init_def od_setitem_def)

text \<open>
  C6 (amended): for every table that uses the inherited \<^verbatim>\<open>HWStatus.decode\<close> and whose
  codes are flag codes (zero or a single bit, as in the panel, alarm panel and reader
  tables), \<^verbatim>\<open>decode(status)\<close> returns, in table insertion order, exactly the
  entries whose code is encoded in the status, and the codes of the returned entries OR
  together to the status restricted to the bits of the table.
\<close>

theorem decode_flag_table:
  assumes "decode_method_of t = HWStatus_method"
    and "\<forall>c \<in> fst ` set (items t). flag_code c"
  shows "decode t status = Inr (encoded_statuses (items t) status)
    \<and> or_codes (map fst (filter (\<lambda>(c, _). encoded_in c status) (items t)))
        = status AND or_codes (map fst (items t))"
  using assms or_codes_selected [of "items t" status] filter_flag_codes [of "items t" status]
  by (simp add: decode_def HWStatus_decode_def encoded_statuses_def)

theorem decode_flag_table_witness:
  "decode PANEL_STATUS 5 = Inr [''ONLINE_STATUS'', ''CABINET_TAMPER'']
   \<and> or_codes (map fst (filter (\<lambda>(c, _). encoded_in c 5) (items PANEL_STATUS))) = 5"
proof -
  have items: "items PANEL_STATUS =
      [(1, ''ONLINE_STATUS''), (2, ''OPTIONS_MISMATCH_STATUS''), (4, ''CABINET_TAMPER''),
       (8, ''POWER_FAIL''), (16, ''DOWNLOADING_FIRMWARE'')]"
    by (simp add: PANEL_STATUS_def PanelStatus_items_def DeviceStatus_items_def od_init_def
        od_setitem_def)
  have m: "decode_method_of PANEL_STATUS = HWStatus_method" by (simp add: PANEL_STATUS_def)
  have "or_codes (map fst (items PANEL_STATUS)) = 31"
    by (simp add: items or_codes_def)
  then show ?thesis
    using decode_flag_table [OF m PANEL_STATUS_flags, of 5]
    by (simp add: items encoded_statuses_def encoded_in_def)
qed



text \<open>The classes that \<^verbatim>\<open>_status_cls\<close> sends to the two exact-lookup tables.\<close>

lemma status_cls_exact_tables:
  "map_of status_cls ''Lnl_AlarmInput'' = Some INPUT_STATUS"
  "map_of status_cls ''Lnl_AlarmOutput'' = Some OUTPUT_STATUS"
  "map_of status_cls ''Lnl_ReaderInput'' = Some INPUT_STATUS"
  "map_of status_cls ''Lnl_ReaderInput1'' = Some INPUT_STATUS"
  "map_of status_cls ''Lnl_ReaderInput2'' = Some INPUT_STATUS"
  "map_of status_cls ''Lnl_ReaderOutput'' = Some OUTPUT_STATUS"
  "map_of status_cls ''Lnl_ReaderOutput1'' = Some OUTPUT_STATUS"
  "map_of status_cls ''Lnl_ReaderOutput2'' = Some OUTPUT_STATUS"
  by (simp_all add: status_cls_def)

section \<open>Verification: decoding wrapped errors\<close>

lemma stat_code_search_sound:
  "stat_code_search s = Some ds \<Longrightarrow>
     ds \<noteq> [] \<and> (\<forall>c \<in> set ds. is_digit c)
     \<and> (\<exists>pre post. s = pre @ ''StatusCode = '' @ ds @ post \<and> (post = [] \<or> \<not> is_digit (hd post)))"
proof (induction s)
  case Nil
  then show ?case by simp
next
  case (Cons c cs)
  let ?s = "c # cs"
  show ?case
  proof (cases "take 13 ?s = ''StatusCode = '' \<and> takeWhile is_digit (drop 13 ?s) \<noteq> []")
    case True
    then have ds: "ds = takeWhile is_digit (drop 13 ?s)" using Cons.prems by simp
    have split: "?s = [] @ take 13 ?s @ takeWhile is_digit (drop 13 ?s) @ dropWhile is_digit (drop 13 ?s)"
      by (simp del: take_Cons' drop_Cons' add: append_take_drop_id)
    have post: "dropWhile is_digit (drop 13 ?s) = [] \<or> \<not> is_digit (hd (dropWhile is_digit (drop 13 ?s)))"
      using hd_dropWhile [of is_digit "drop 13 ?s"] by blast
    have "\<forall>c \<in> set ds. is_digit c" unfolding ds by (meson set_takeWhileD)
    moreover have "ds \<noteq> []" using True ds by simp
    moreover have "\<exists>pre post. ?s = pre @ ''StatusCode = '' @ ds @ post \<and> (post = [] \<or> \<not> is_digit (hd post))"
      using split post True unfolding ds by metis
    ultimately show ?thesis by blast
  next
    case False
    then have "stat_code_search cs = Some ds" using Cons.prems by (simp split: if_splits)
    then obtain pre post where "cs = pre @ ''StatusCode = '' @ ds @ post"
      and "post = [] \<or> \<not> is_digit (hd post)" and "ds \<noteq> []" and "\<forall>c \<in> set ds. is_digit c"
      using Cons.IH by blast
    then have "?s = (c # pre) @ ''StatusCode = '' @ ds @ post" by simp
    then show ?thesis
      using \<open>post = [] \<or> \<not> is_digit (hd post)\<close> \<open>ds \<noteq> []\<close> \<open>\<forall>c \<in> set ds. is_digit c\<close> by blast
  qed
qed

lemma stat_code_search_complete:
  "is_digit d \<Longrightarrow> stat_code_search (pre @ ''StatusCode = '' @ d # post) \<noteq> None"
proof (induction pre)
  case Nil
  then show ?case by simp
next
  case (Cons c pre)
  then show ?case by (simp del: take_Cons' drop_Cons')
qed

text \<open>
  C4 (as stated): refuted where the provider supplies an error object whose Operation
  and Description are empty and whose text has no status code: the DITError raised
  carries the source, the description and the code of the COM error in flight.
\<close>

theorem handle_error_fields_counterexample:
  "handle_error (\<lambda>h. h mod 2 ^ 32)
     (Inr \<lparr>Operation = PNone, ParameterInfo = PStr ''ID'', Description = PStr [],
           GetObjectText = ''instance of Lnl_Error {};''\<rparr>)
     (Com_error \<lparr>hresult = - 5, strerror = PStr ''Exception occurred.'',
        excepinfo = Some \<lparr>ex_wcode = PInt 0, ex_source = PStr ''SWbemServicesEx'',
          ex_text = PStr ''Generic failure'', ex_helpfile = PNone, ex_helpid = PInt 0,
          ex_scode = PInt 7\<rparr>,
        argerror = PNone\<rparr>)
   = DITError \<lparr>err_source = PStr ''SWbemServicesEx'', err_description = PStr ''Generic failure'',
       err_code = ''0xfffffffb'', err_operation = [], err_param_info = PStr ''ID'',
       err_additional_info = Some \<lparr>ex_wcode = PInt 0, ex_source = PStr ''SWbemServicesEx'',
          ex_text = PStr ''Generic failure'', ex_helpfile = PNone, ex_helpid = PInt 0,
          ex_scode = PInt 7\<rparr>,
       err_handle = Raw_dit \<lparr>Operation = PNone, ParameterInfo = PStr ''ID'',
          Description = PStr [], GetObjectText = ''instance of Lnl_Error {};''\<rparr>\<rparr>"
  by (simp add: handle_error_def dit_error_info_def DITError_init_def COMError_init_def
      com_args_of_def is_digit_def hex_def digits_of.simps digit_char_def)

text \<open>
  C4 (amended): when the exception in flight is a com_error, or an x_wmi that wraps
  one, \<^verbatim>\<open>handle_error\<close> always raises. It raises a DITError exactly when the provider
  supplies error information, and a plain COMError, built from the hresult and the
  excepinfo of the com_error, when it does not. The DITError carries the provider's
  ParameterInfo; it carries the provider's Operation as source and its Description only
  when they are non-empty, and the status code parsed from the text of the error object
  (as a hex code) only when the text has one; otherwise it keeps the source, the
  description and the code of the COMError.
\<close>

theorem handle_error_decodes:
  assumes "com_args_of inflight = Some a"
  shows "case outcome of
      Inl _ \<Rightarrow>
        (\<exists>f. handle_error s2u outcome inflight = COMError f
           \<and> err_code f = hex (s2u (hresult a))
           \<and> err_source f = (case excepinfo a of Some x \<Rightarrow> ex_source x | None \<Rightarrow> PStr [])
           \<and> err_description f = (case excepinfo a of Some x \<Rightarrow> ex_text x | None \<Rightarrow> strerror a)
           \<and> err_additional_info f = excepinfo a
           \<and> err_handle f = Raw_error inflight)
    | Inr d \<Rightarrow>
        (\<exists>f. handle_error s2u outcome inflight = DITError f
           \<and> err_param_info f = ParameterInfo d
           \<and> err_source f =
               (if truthy (Operation d) then Operation d
                else case excepinfo a of Some x \<Rightarrow> ex_source x | None \<Rightarrow> PStr [])
           \<and> err_description f =
               (if truthy (Description d) then Description d
                else case excepinfo a of Some x \<Rightarrow> ex_text x | None \<Rightarrow> strerror a)
           \<and> err_code f =
               (case stat_code_search (GetObjectText d) of
                  Some ds \<Rightarrow> hex (int_of_digits ds)
                | None \<Rightarrow> hex (s2u (hresult a)))
           \<and> err_handle f = Raw_dit d)"
  using assms
  by (simp add: handle_error_def dit_error_info_def DITError_init_def COMError_init_def Let_def
      split: sum.splits option.splits)

theorem handle_error_decodes_witness:
  "(\<exists>f. handle_error (\<lambda>h. h mod 2 ^ 32)
      (Inr \<lparr>Operation = PStr ''PutInstance'', ParameterInfo = PStr ''SSNO'',
            Description = PStr ''Invalid value'',
            GetObjectText = ''instance of Lnl_Error { StatusCode = 2147749896; };''\<rparr>)
      (X_wmi [] (Some \<lparr>hresult = - 5, strerror = PStr ''Exception occurred.'',
         excepinfo = None, argerror = PNone\<rparr>)) = DITError f
     \<and> err_param_info f = PStr ''SSNO''
     \<and> err_source f = PStr ''PutInstance''
     \<and> err_description f = PStr ''Invalid value''
     \<and> err_code f = ''0x80041008'')"
proof -
  have a: "com_args_of (X_wmi [] (Some \<lparr>hresult = - 5, strerror = PStr ''Exception occurred.'',
         excepinfo = None, argerror = PNone\<rparr>))
      = Some \<lparr>hresult = - 5, strerror = PStr ''Exception occurred.'', excepinfo = None,
          argerror = PNone\<rparr>"
    by (simp add: com_args_of_def)
  have c: "hex (int_of_digits ''2147749896'') = ''0x80041008''"
    by (simp add: hex_def int_of_digits_def digits_of.simps digit_char_def)
  show ?thesis
    using handle_error_decodes [OF a, where s2u = "\<lambda>h. h mod 2 ^ 32"
        and outcome = "Inr \<lparr>Operation = PStr ''PutInstance'',
          ParameterInfo = PStr ''SSNO'', Description = PStr ''Invalid value'',
          GetObjectText = ''instance of Lnl_Error { StatusCode = 2147749896; };''\<rparr>"]
    by (auto simp: is_digit_def c)
qed

section \<open>Verification: subscriptions and connection bootstrap\<close>

text \<open>
  C9: \<^verbatim>\<open>software_events\<close> raises ValueError for every target class whose lower-case
  form is not one of the four targets, and it does so before anything is sent to the
  provider: the world, its call log included, is returned as it was. For an accepted
  target class exactly one call is made, the notification query
  \<^verbatim>\<open>select * from <operation> where TargetInstance ISA '<TargetCls>'\<close>.
\<close>

theorem software_events_validates:
  "(lower TargetCls \<notin> set targets \<longrightarrow>
      software_events P self TargetCls operation w
        = (Inl (ValueError (''Invalid target class: '' @ TargetCls)), w))
   \<and> (lower TargetCls \<in> set targets \<longrightarrow>
      calls (snd (software_events P self TargetCls operation w))
        = calls w @ [Call_ExecNotificationQuery
            (''select * from '' @ operation @ '' where TargetInstance ISA '' @ [CHR 0x27]
               @ TargetCls @ [CHR 0x27])])"
  by (auto simp: software_events_def SWatcher_init_def DITWatcher_init_def catch_comi_def
      invoke_def split: prod.splits sum.splits exn.splits)

theorem software_events_validates_witness:
  "software_events (demo True) \<lparr>private_namespace = 102\<rparr> ''Lnl_Reader'' SWOperationEvent
       (world0 demo_empty)
     = (Inl (ValueError ''Invalid target class: Lnl_Reader''), world0 demo_empty)
   \<and> calls (snd (software_events (demo True) \<lparr>private_namespace = 102\<rparr> ''Lnl_Badge''
        SWOperationEvent (world0 demo_empty)))
     = [Call_ExecNotificationQuery
         (''select * from __InstanceOperationEvent where TargetInstance ISA ''
            @ [CHR 0x27] @ ''Lnl_Badge'' @ [CHR 0x27])]"
proof -
  have 1: "lower ''Lnl_Reader'' \<notin> set targets"
    by (simp add: lower_def lower_char_def targets_def)
  have 2: "lower ''Lnl_Badge'' \<in> set targets"
    by (simp add: lower_def lower_char_def targets_def)
  show ?thesis
    using software_events_validates [of "''Lnl_Reader''" "demo True" "\<lparr>private_namespace = 102\<rparr>"
        SWOperationEvent "world0 demo_empty"]
      software_events_validates [of "''Lnl_Badge''" "demo True" "\<lparr>private_namespace = 102\<rparr>"
        SWOperationEvent "world0 demo_empty"] 1 2
    by (simp add: world0_def SWOperationEvent_def)
qed

text \<open>
  C7: \<^verbatim>\<open>DIT\<close> is \<^verbatim>\<open>_connect_dit\<close>. When \<^verbatim>\<open>coinitialize\<close> is true, the first call
  made is \<^verbatim>\<open>CoInitialize\<close>, whatever happens afterwards. When the call returns a
  connection, the calls made were (after that initialisation) the dispatch of the
  locator, \<^verbatim>\<open>ConnectServer\<close> on the given server with the OnGuard namespace under Root and
  the given user name and password, and \<^verbatim>\<open>WMI\<close> on the services object; the
  \<^verbatim>\<open>namespace\<close> property of the connection is the object that \<^verbatim>\<open>WMI\<close> returned.
\<close>

theorem connect_dit_bootstrap:
  "(coinitialize \<longrightarrow>
      (\<exists>T. calls (snd (DIT P server username password coinitialize w))
             = calls w @ Call_CoInitialize # T))
   \<and> (\<forall>conn w'. DIT P server username password coinitialize w = (Inr conn, w') \<longrightarrow>
        calls w' = calls w @ (if coinitialize then [Call_CoInitialize] else [])
          @ [Call_Dispatch ''WbemScripting.SWbemLocator'',
             Call_ConnectServer server OnGuard_namespace username password,
             Call_WMI]
        \<and> (\<exists>r1 locator r2 wbemsvc r3.
              r1 = (if coinitialize then snd (CoInitialize P (remote w)) else remote w)
              \<and> Dispatch P ''WbemScripting.SWbemLocator'' r1 = (Inr locator, r2)
              \<and> ConnectServer P locator server OnGuard_namespace username password r2
                   = (Inr wbemsvc, r3)
              \<and> WMI P wbemsvc r3 = (Inr (namespace conn), remote w')))"
  apply (intro conjI impI allI)
  subgoal
    by (auto simp: DIT_def connect_dit_def catch_comi_def invoke_def
      split: prod.splits sum.splits exn.splits)
  subgoal
    by (auto simp: DIT_def connect_dit_def catch_comi_def invoke_def namespace_def
      split: prod.splits sum.splits exn.splits if_splits)
  subgoal
    by (auto simp: DIT_def connect_dit_def catch_comi_def invoke_def namespace_def
      split: prod.splits sum.splits exn.splits if_splits)
  done

theorem connect_dit_bootstrap_witness:
  "DIT (demo True) ''ms5'' ''user'' ''secret'' True (world0 demo_empty)
     = (Inr \<lparr>private_namespace = 102\<rparr>,
        \<lparr>remote = demo_empty,
         calls = [Call_CoInitialize, Call_Dispatch ''WbemScripting.SWbemLocator'',
                  Call_ConnectServer ''ms5'' OnGuard_namespace ''user'' ''secret'', Call_WMI]\<rparr>)
   \<and> namespace \<lparr>private_namespace = 102 :: nat\<rparr> = 102
   \<and> DIT_default (demo True) (world0 demo_empty)
     = (Inr \<lparr>private_namespace = 102\<rparr>,
        \<lparr>remote = demo_empty,
         calls = [Call_Dispatch ''WbemScripting.SWbemLocator'',
                  Call_ConnectServer ''.'' OnGuard_namespace [] [], Call_WMI]\<rparr>)"
proof -
  have remote: "\<And>b. remote (snd (DIT (demo True) ''ms5'' ''user'' ''secret'' b (world0 demo_empty)))
      = demo_empty"
    "\<And>b. fst (DIT (demo True) ''ms5'' ''user'' ''secret'' b (world0 demo_empty))
      = Inr \<lparr>private_namespace = 102\<rparr>"
    "fst (DIT (demo True) ''.'' [] [] False (world0 demo_empty)) = Inr \<lparr>private_namespace = 102\<rparr>"
    "remote (snd (DIT (demo True) ''.'' [] [] False (world0 demo_empty))) = demo_empty"
    by (simp_all add: DIT_def connect_dit_def catch_comi_def invoke_def demo_def world0_def)
  obtain c1 w1 where r1: "DIT (demo True) ''ms5'' ''user'' ''secret'' True (world0 demo_empty) = (Inr c1, w1)"
    using remote(2) [of True] by (metis prod.collapse)
  obtain c2 w2 where r2: "DIT (demo True) ''.'' [] [] False (world0 demo_empty) = (Inr c2, w2)"
    using remote(3) by (metis prod.collapse)
  have "calls w1 = [Call_CoInitialize, Call_Dispatch ''WbemScripting.SWbemLocator'',
      Call_ConnectServer ''ms5'' OnGuard_namespace ''user'' ''secret'', Call_WMI]"
    using connect_dit_bootstrap [of True "demo True" "''ms5''" "''user''" "''secret''"
        "world0 demo_empty"] r1
    by (simp add: world0_def)
  moreover have "calls w2 = [Call_Dispatch ''WbemScripting.SWbemLocator'',
      Call_ConnectServer ''.'' OnGuard_namespace [] [], Call_WMI]"
    using connect_dit_bootstrap [of False "demo True" "''.''" "[]" "[]" "world0 demo_empty"] r2
    by (simp add: world0_def)
  moreover have "remote w1 = demo_empty" "c1 = \<lparr>private_namespace = 102\<rparr>"
    "remote w2 = demo_empty" "c2 = \<lparr>private_namespace = 102\<rparr>"
    using remote(1) [of True] remote(2) [of True] remote(3) remote(4) r1 r2 by simp_all
  ultimately have "w1 = \<lparr>remote = demo_empty,
         calls = [Call_CoInitialize, Call_Dispatch ''WbemScripting.SWbemLocator'',
                  Call_ConnectServer ''ms5'' OnGuard_namespace ''user'' ''secret'', Call_WMI]\<rparr>"
    "w2 = \<lparr>remote = demo_empty,
         calls = [Call_Dispatch ''WbemScripting.SWbemLocator'',
                  Call_ConnectServer ''.'' OnGuard_namespace [] [], Call_WMI]\<rparr>"
    by simp_all
  then show ?thesis
    using r1 r2 \<open>c1 = \<lparr>private_namespace = 102\<rparr>\<close> \<open>c2 = \<lparr>private_namespace = 102\<rparr>\<close>
    by (simp add: DIT_default_def namespace_def)
qed

section \<open>Verification: data_query and open_door\<close>



















section \<open>Verification: dictionaries and watchers\<close>

lemma map_of_overwrite:
  "map_of (map (\<lambda>(k', v'). if k' = k then (k', v) else (k', v')) d) x
     = (if x = k \<and> k \<in> fst ` set d then Some v else map_of d x)"
proof (induction d)
  case Nil
  then show ?case by simp
next
  case (Cons a d)
  obtain a1 a2 where a: "a = (a1, a2)" by (cases a)
  show ?case
  proof (cases "a1 = k")
    case True
    then show ?thesis using Cons.IH by (simp add: a)
  next
    case False
    then show ?thesis using Cons.IH by (cases "x = k") (simp_all add: a)
  qed
qed

lemma map_of_dict_setitem: "map_of (dict_setitem d k v) = (map_of d)(k \<mapsto> v)"
proof (rule ext)
  fix x
  show "map_of (dict_setitem d k v) x = ((map_of d)(k \<mapsto> v)) x"
  proof (cases "k \<in> fst ` set d")
    case True
    then show ?thesis by (simp add: dict_setitem_def map_of_overwrite)
  next
    case False
    then have "map_of d k = None" by (simp add: map_of_eq_None_iff)
    then show ?thesis using False
      by (simp add: dict_setitem_def map_add_def split: option.splits)
  qed
qed

lemma keys_dict_setitem: "fst ` set (dict_setitem d k v) = insert k (fst ` set d)"
  by (auto simp: dict_setitem_def image_iff split: if_splits) force+

lemma distinct_dict_setitem:
  assumes "distinct (map fst d)"
  shows "distinct (map fst (dict_setitem d k v))"
proof (cases "k \<in> fst ` set d")
  case True
  then have "map fst (dict_setitem d k v) = map fst d"
    by (simp add: dict_setitem_def comp_def case_prod_beta if_distrib)
  then show ?thesis using assms by (simp only:)
next
  case False
  then show ?thesis using assms by (simp add: dict_setitem_def)
qed

lemma map_of_dict_update: "map_of (dict_update d e) = map_of d ++ map_of (rev e)"
proof (induction e arbitrary: d)
  case Nil
  then show ?case by (simp add: dict_update_def)
next
  case (Cons x e)
  obtain k v where x: "x = (k, v)" by (cases x)
  have step: "dict_update d (x # e) = dict_update (dict_setitem d k v) e"
    by (simp add: dict_update_def x)
  have A: "map_of (dict_update d (x # e)) = (map_of d)(k \<mapsto> v) ++ map_of (rev e)"
    by (simp only: step Cons.IH map_of_dict_setitem)
  have B: "map_of d ++ map_of (rev (x # e)) = (map_of d)(k \<mapsto> v) ++ map_of (rev e)"
    by (rule ext) (simp add: x map_add_def split: option.splits)
  show ?case by (simp only: A B)
qed

lemma keys_dict_update: "fst ` set (dict_update d e) = fst ` set d \<union> fst ` set e"
proof (induction e arbitrary: d)
  case Nil
  then show ?case by (simp add: dict_update_def)
next
  case (Cons x e)
  obtain k v where x: "x = (k, v)" by (cases x)
  have "dict_update d (x # e) = dict_update (dict_setitem d k v) e"
    by (simp add: dict_update_def x)
  then show ?case using Cons.IH [of "dict_setitem d k v"] by (simp add: keys_dict_setitem x)
qed

lemma distinct_dict_update:
  "distinct (map fst d) \<Longrightarrow> distinct (map fst (dict_update d e))"
proof (induction e arbitrary: d)
  case Nil
  then show ?case by (simp add: dict_update_def)
next
  case (Cons x e)
  obtain k v where x: "x = (k, v)" by (cases x)
  have "dict_update d (x # e) = dict_update (dict_setitem d k v) e"
    by (simp add: dict_update_def x)
  then show ?case using Cons.IH [of "dict_setitem d k v"] Cons.prems
    by (simp add: distinct_dict_setitem)
qed

lemma map_of_dict_of: "map_of (dict_of ps) n = property_value ps n"
  by (simp add: dict_of_def map_of_dict_update property_value_def)

lemma keys_dict_of: "fst ` set (dict_of ps) = fst ` set ps"
  by (simp add: dict_of_def keys_dict_update)

lemma distinct_dict_of: "distinct (map fst (dict_of ps))"
  by (simp add: dict_of_def distinct_dict_update)

lemma property_value_distinct:
  "distinct (map fst ps) \<Longrightarrow> (n, v) \<in> set ps \<Longrightarrow> property_value ps n = Some v"
  by (simp add: property_value_def distinct_rev rev_map [symmetric])

text \<open>
  C3: a call of a watcher does not return while the parent's call waits for a
  notification. When the platform delivers an event, \<^verbatim>\<open>SWatcher\<close> returns the dict
  of the properties of the instance (every name mapped to its value) with the extra key
  \<^verbatim>\<open>previous\<close>, which holds the dict of the previous instance when there is one and
  None otherwise; \<^verbatim>\<open>HWatcher\<close>, for an event whose \<^verbatim>\<open>Alarm\<close> property holds an
  embedded object, returns the dict of the properties of the event in which the value
  of \<^verbatim>\<open>Alarm\<close> is the dict of the properties of that object.
\<close>

theorem watcher_call_delivers_dict:
  "(NextEvent P (wmi_event_source watcher) (remote w) = None \<longrightarrow>
      HWatcher_call P watcher w = None \<and> SWatcher_call P watcher w = None)
   \<and> (\<forall>event r'. NextEvent P (wmi_event_source watcher) (remote w) = Some (Inr event, r') \<longrightarrow>
        (\<exists>d. SWatcher_call P watcher w
               = Some (Inr d, \<lparr>remote = r', calls = calls w @ [Call_NextEvent]\<rparr>)
           \<and> fst ` set d = insert ''previous'' (fst ` set (Properties event))
           \<and> (\<forall>n. n \<noteq> ''previous'' \<longrightarrow> map_of d n = property_value (Properties event) n)
           \<and> map_of d ''previous''
               = Some (case previous event of
                         Some p \<Rightarrow> Dict (dict_of p)
                       | None \<Rightarrow> Scalar PNone)
           \<and> (\<forall>p n. previous event = Some p \<longrightarrow> map_of (dict_of p) n = property_value p n))
        \<and> (\<forall>aps. property_value (Properties event) ''Alarm'' = Some (Object aps) \<longrightarrow>
             (\<exists>d. HWatcher_call P watcher w
                    = Some (Inr d, \<lparr>remote = r', calls = calls w @ [Call_NextEvent]\<rparr>)
                \<and> fst ` set d = fst ` set (Properties event)
                \<and> (\<forall>n. n \<noteq> ''Alarm'' \<longrightarrow> map_of d n = property_value (Properties event) n)
                \<and> map_of d ''Alarm'' = Some (Dict (dict_of aps))
                \<and> (\<forall>n. map_of (dict_of aps) n = property_value aps n))))"
proof (intro conjI allI impI)
  assume "NextEvent P (wmi_event_source watcher) (remote w) = None"
  then show "HWatcher_call P watcher w = None" "SWatcher_call P watcher w = None"
    by (simp_all add: HWatcher_call_def SWatcher_call_def DITWatcher_call_def)
next
  fix event r'
  assume ev: "NextEvent P (wmi_event_source watcher) (remote w) = Some (Inr event, r')"
  let ?w1 = "\<lparr>remote = r', calls = calls w @ [Call_NextEvent]\<rparr>"
  have call: "DITWatcher_call P watcher w = Some (Inr event, ?w1)"
    by (simp add: DITWatcher_call_def ev catch_comi_def)
  let ?prev = "case previous event of Some p \<Rightarrow> Dict (dict_of p) | None \<Rightarrow> Scalar PNone"
  let ?d = "dict_setitem (dict_of (Properties event)) ''previous'' ?prev"
  have "SWatcher_call P watcher w = Some (Inr ?d, ?w1)"
    by (simp add: SWatcher_call_def call)
  moreover have "fst ` set ?d = insert ''previous'' (fst ` set (Properties event))"
    by (simp add: keys_dict_setitem keys_dict_of)
  moreover have "\<forall>n. n \<noteq> ''previous'' \<longrightarrow> map_of ?d n = property_value (Properties event) n"
    by (simp add: map_of_dict_setitem map_of_dict_of)
  moreover have "map_of ?d ''previous'' = Some ?prev"
    by (simp add: map_of_dict_setitem)
  moreover have "\<forall>p n. previous event = Some p \<longrightarrow> map_of (dict_of p) n = property_value p n"
    by (simp add: map_of_dict_of)
  ultimately show "\<exists>d. SWatcher_call P watcher w = Some (Inr d, ?w1)
           \<and> fst ` set d = insert ''previous'' (fst ` set (Properties event))
           \<and> (\<forall>n. n \<noteq> ''previous'' \<longrightarrow> map_of d n = property_value (Properties event) n)
           \<and> map_of d ''previous'' = Some ?prev
           \<and> (\<forall>p n. previous event = Some p \<longrightarrow> map_of (dict_of p) n = property_value p n)"
    by blast
  fix aps
  assume alarm: "property_value (Properties event) ''Alarm'' = Some (Object aps)"
  let ?h = "dict_setitem (dict_of (Properties event)) ''Alarm'' (Dict (dict_of aps))"
  have "HWatcher_call P watcher w = Some (Inr ?h, ?w1)"
    using alarm by (simp add: HWatcher_call_def call map_of_dict_of to_dict_def)
  moreover have "fst ` set ?h = fst ` set (Properties event)"
  proof -
    have "''Alarm'' \<in> fst ` set (Properties event)"
      using alarm by (metis keys_dict_of map_of_dict_of map_of_eq_None_iff option.distinct(1))
    then show ?thesis by (auto simp: keys_dict_setitem keys_dict_of)
  qed
  moreover have "\<forall>n. n \<noteq> ''Alarm'' \<longrightarrow> map_of ?h n = property_value (Properties event) n"
    by (simp add: map_of_dict_setitem map_of_dict_of)
  moreover have "map_of ?h ''Alarm'' = Some (Dict (dict_of aps))"
    by (simp add: map_of_dict_setitem)
  moreover have "\<forall>n. map_of (dict_of aps) n = property_value aps n"
    by (simp add: map_of_dict_of)
  ultimately show "\<exists>d. HWatcher_call P watcher w = Some (Inr d, ?w1)
                \<and> fst ` set d = fst ` set (Properties event)
                \<and> (\<forall>n. n \<noteq> ''Alarm'' \<longrightarrow> map_of d n = property_value (Properties event) n)
                \<and> map_of d ''Alarm'' = Some (Dict (dict_of aps))
                \<and> (\<forall>n. map_of (dict_of aps) n = property_value aps n)"
    by blast
qed

theorem watcher_call_delivers_dict_witness:
  "(\<exists>d. HWatcher_call (demo True) \<lparr>wmi_event_source = 103, is_extrinsic = True\<rparr>
           (world0 (notified access_event))
         = Some (Inr d, \<lparr>remote = demo_empty, calls = [Call_NextEvent]\<rparr>)
       \<and> map_of d ''CardNumber'' = Some (Scalar (PStr ''258963''))
       \<and> map_of d ''Alarm''
           = Some (Dict [(''Description'', Scalar (PStr ''Granted Access'')),
                         (''ID'', Scalar (PInt 1)), (''Priority'', Scalar (PInt 50))]))
   \<and> (\<exists>d. SWatcher_call (demo True) \<lparr>wmi_event_source = 103, is_extrinsic = False\<rparr>
           (world0 (notified cardholder_event))
         = Some (Inr d, \<lparr>remote = demo_empty, calls = [Call_NextEvent]\<rparr>)
       \<and> map_of d ''LASTNAME'' = Some (Scalar (PStr ''Tereshkova''))
       \<and> map_of d ''previous'' = Some (Scalar PNone))
   \<and> HWatcher_call (demo True) \<lparr>wmi_event_source = 103, is_extrinsic = True\<rparr>
        (world0 demo_empty) = None"
proof -
  let ?hw = "\<lparr>wmi_event_source = 103 :: nat, is_extrinsic = True\<rparr>"
  let ?sw = "\<lparr>wmi_event_source = 103 :: nat, is_extrinsic = False\<rparr>"
  have n0: "NextEvent (demo True) (wmi_event_source ?hw) (remote (world0 demo_empty)) = None"
    by (simp add: demo_def world0_def demo_empty_def)
  have n1: "NextEvent (demo True) (wmi_event_source ?hw) (remote (world0 (notified access_event)))
      = Some (Inr access_event, demo_empty)"
    by (simp add: demo_def world0_def notified_def demo_empty_def)
  have n2: "NextEvent (demo True) (wmi_event_source ?sw) (remote (world0 (notified cardholder_event)))
      = Some (Inr cardholder_event, demo_empty)"
    by (simp add: demo_def world0_def notified_def demo_empty_def)
  have alarm: "property_value (Properties access_event) ''Alarm''
      = Some (Object [(''Description'', Scalar (PStr ''Granted Access'')),
                      (''ID'', Scalar (PInt 1)), (''Priority'', Scalar (PInt 50))])"
    by (simp add: property_value_def access_event_def)
  have card: "property_value (Properties access_event) ''CardNumber'' = Some (Scalar (PStr ''258963''))"
    by (simp add: property_value_def access_event_def)
  have name: "property_value (Properties cardholder_event) ''LASTNAME''
      = Some (Scalar (PStr ''Tereshkova''))"
    by (simp add: property_value_def cardholder_event_def)
  have prev: "previous cardholder_event = None"
    by (simp add: cardholder_event_def)
  have dict: "dict_of [(''Description'', Scalar (PStr ''Granted Access'')),
                      (''ID'', Scalar (PInt 1)), (''Priority'', Scalar (PInt 50))]
      = [(''Description'', Scalar (PStr ''Granted Access'')),
         (''ID'', Scalar (PInt 1)), (''Priority'', Scalar (PInt 50))]"
    by (simp add: dict_of_def dict_update_def dict_setitem_def)
  note T1 = watcher_call_delivers_dict [of "demo True" ?hw "world0 (notified access_event)",
      THEN conjunct2, rule_format, OF n1]
  note T2 = watcher_call_delivers_dict [of "demo True" ?sw "world0 (notified cardholder_event)",
      THEN conjunct2, rule_format, OF n2]
  note T0 = watcher_call_delivers_dict [of "demo True" ?hw "world0 demo_empty",
      THEN conjunct1, rule_format, OF n0]
  obtain d where d: "HWatcher_call (demo True) ?hw (world0 (notified access_event))
        = Some (Inr d, \<lparr>remote = demo_empty,
            calls = calls (world0 (notified access_event)) @ [Call_NextEvent]\<rparr>)"
      "\<forall>n. n \<noteq> ''Alarm'' \<longrightarrow> map_of d n = property_value (Properties access_event) n"
      "map_of d ''Alarm'' = Some (Dict (dict_of [(''Description'', Scalar (PStr ''Granted Access'')),
                      (''ID'', Scalar (PInt 1)), (''Priority'', Scalar (PInt 50))]))"
    using T1 [THEN conjunct2, rule_format, OF alarm] by blast
  have d2: "map_of d ''CardNumber'' = Some (Scalar (PStr ''258963''))"
    using d(2) card by simp
  have A: "\<exists>d. HWatcher_call (demo True) ?hw (world0 (notified access_event))
         = Some (Inr d, \<lparr>remote = demo_empty, calls = [Call_NextEvent]\<rparr>)
       \<and> map_of d ''CardNumber'' = Some (Scalar (PStr ''258963''))
       \<and> map_of d ''Alarm''
           = Some (Dict [(''Description'', Scalar (PStr ''Granted Access'')),
                         (''ID'', Scalar (PInt 1)), (''Priority'', Scalar (PInt 50))])"
    using d(1) d(3) d2 unfolding dict by (intro exI [of _ d]) (simp add: world0_def)
  obtain e where e: "SWatcher_call (demo True) ?sw (world0 (notified cardholder_event))
        = Some (Inr e, \<lparr>remote = demo_empty,
            calls = calls (world0 (notified cardholder_event)) @ [Call_NextEvent]\<rparr>)"
      "\<forall>n. n \<noteq> ''previous'' \<longrightarrow> map_of e n = property_value (Properties cardholder_event) n"
      "map_of e ''previous'' = Some (case previous cardholder_event of
                         Some p \<Rightarrow> Dict (dict_of p)
                       | None \<Rightarrow> Scalar PNone)"
    using T2 [THEN conjunct1] by blast
  have e2: "map_of e ''LASTNAME'' = Some (Scalar (PStr ''Tereshkova''))"
    using e(2) name by simp
  have B: "\<exists>d. SWatcher_call (demo True) ?sw (world0 (notified cardholder_event))
         = Some (Inr d, \<lparr>remote = demo_empty, calls = [Call_NextEvent]\<rparr>)
       \<and> map_of d ''LASTNAME'' = Some (Scalar (PStr ''Tereshkova''))
       \<and> map_of d ''previous'' = Some (Scalar PNone)"
    using e(1) e(3) e2 by (intro exI [of _ e]) (simp add: world0_def prev)
  have C: "HWatcher_call (demo True) ?hw (world0 demo_empty) = None"
    using T0 by simp
  show ?thesis using A B C by blast
qed

end
